theory Spec2Isabelle
  imports Main "HOL-Library.Multiset"
begin

section \<open>Data model\<close>

text \<open>
  The theory embeds the current revision of picofeed (the file with \<open>fetchAll\<close>,
  \<open>groupByDate\<close> and \<open>extractFeedLink\<close>). Strings are byte lists, as Go strings are.

  A timestamp is an instant, counted in nanoseconds since 1970-01-01T00:00:00 UTC.
  \<open>Time.After\<close> compares instants. The location of a \<open>time.Time\<close> is not modelled:
  all timestamps are taken to be in UTC, which is what the feed library produces for
  the date elements of RSS and Atom items, and \<open>Format\<close> reads the instant in UTC. For
  timestamps in different locations the labels that \<open>Format\<close> prints need not follow
  the order of the instants.
\<close>

type_synonym Time = int

definition After :: "Time \<Rightarrow> Time \<Rightarrow> bool" where
  "After t u = (u < t)"

text \<open>The fields of \<open>gofeed.Item\<close> and \<open>gofeed.Feed\<close> that the program reads.\<close>

record Item =
  Item_Title :: string
  Item_Link :: string
  PublishedParsed :: "Time option"
  UpdatedParsed :: "Time option"

record Feed =
  Feed_Title :: string
  Items :: "Item list"

text \<open>
  \<open>type Post struct\<close>. The Go field \<open>Timestamp\<close> is a pointer; the only place that
  builds a Post, \<open>parseFeed\<close>, stores a non-nil pointer, and the model keeps the
  pointee.
\<close>

record Post =
  Title :: string
  Link :: string
  Timestamp :: Time
  FeedLink :: string
  FeedTitle :: string

text \<open>\<open>url.URL\<close>, field by field.\<close>

record URL =
  Scheme :: string
  Opaque :: string
  User :: "string option"
  Host :: string
  Path :: string
  RawPath :: string
  ForceQuery :: bool
  RawQuery :: string
  Fragment :: string

datatype error =
    TransportError string
  | StatusError int string
  | ReadBodyError string
  | ErrFeedTypeNotDetected
  | FeedParseError string
  | NoFeedLinkInHead
  | UrlParseError string string
  | NotFileUrlParseError string string
  | ReadFileError string string

record Response =
  StatusCode :: int
  Status :: string
  Body :: "string + string"

datatype stat_result = NotExist | StatFailed string | FileInfo bool

text \<open>
  Everything the program takes from outside its own source: the standard library, the
  feed library, the network, the file system, and the two places where the Go runtime
  picks an order (the sort of tied posts, the interleaving of the workers' sends).
  \<^item> \<open>url_Parse\<close> is \<open>url.Parse\<close> (\<open>Inl\<close> carries the error text), \<open>url_String\<close> is
    \<open>(*URL).String\<close>;
  \<^item> \<open>http_Do\<close> is the GET request \<open>client.Do\<close> sends for a URL string under the shared
    deadline: a transport error (a timeout included) or a response, whose body is
    either a read error or the bytes;
  \<^item> \<open>gofeed_ParseString\<close> is \<open>feedParser.ParseString\<close>;
  \<^item> \<open>os_Stat\<close>, \<open>ioutil_ReadFile\<close>, \<open>ioutil_TempFile\<close> are the file system;
  \<^item> \<open>sort_Sort\<close> is the effect of \<open>sort.Sort (ByTimestamp{posts})\<close> on the slice;
  \<^item> \<open>chan_order\<close> is the order in which the posts sent by the workers, one list per
    worker, arrive in the channel.
\<close>

record env =
  url_Parse :: "string \<Rightarrow> string + URL"
  url_String :: "URL \<Rightarrow> string"
  http_Do :: "string \<Rightarrow> string + Response"
  gofeed_ParseString :: "string \<Rightarrow> error + Feed"
  os_Stat :: "string \<Rightarrow> stat_result"
  ioutil_ReadFile :: "string \<Rightarrow> string + string"
  ioutil_TempFile :: bool
  sort_Sort :: "Post list \<Rightarrow> Post list"
  chan_order :: "Post list list \<Rightarrow> Post list"

section \<open>Regular expressions of extractFeedLink\<close>

text \<open>
  The two patterns use literal bytes, \<open>.\<close> (any byte but a newline), \<open>\s\<close>, the class
  \<open>[^"]\<close>, the greedy star on one of these, and one capture group around a star. A
  pattern is a list of such instructions.
\<close>

datatype cclass = Lit char | AnyCharNotNL | Whitespace | NotChar char

fun cmatch :: "cclass \<Rightarrow> char \<Rightarrow> bool" where
  "cmatch (Lit c) x = (x = c)"
| "cmatch AnyCharNotNL x = (x \<noteq> CHR 0x0A)"
| "cmatch Whitespace x = (x \<in> set [CHR 0x09, CHR 0x0A, CHR 0x0C, CHR 0x0D, CHR '' ''])"
| "cmatch (NotChar c) x = (x \<noteq> c)"

datatype inst = One cclass | Star cclass | CaptureStar cclass

text \<open>
  Matching at a fixed start, in the order of preference of Go's \<open>regexp\<close>
  (leftmost-first): a star first tries to take one more byte and falls back to
  stopping. The result is the captured group and the input left after the match.
\<close>

fun rmatch :: "inst list \<Rightarrow> string \<Rightarrow> string \<Rightarrow> (string \<times> string) option" where
  "rmatch [] s cap = Some (cap, s)"
| "rmatch (One c # r) [] cap = None"
| "rmatch (One c # r) (x # xs) cap = (if cmatch c x then rmatch r xs cap else None)"
| "rmatch (Star c # r) [] cap = rmatch r [] cap"
| "rmatch (Star c # r) (x # xs) cap =
     (if cmatch c x then
        (case rmatch (Star c # r) xs cap of
           Some res \<Rightarrow> Some res
         | None \<Rightarrow> rmatch r (x # xs) cap)
      else rmatch r (x # xs) cap)"
| "rmatch (CaptureStar c # r) [] cap = rmatch r [] cap"
| "rmatch (CaptureStar c # r) (x # xs) cap =
     (if cmatch c x then
        (case rmatch (CaptureStar c # r) xs (cap @ [x]) of
           Some res \<Rightarrow> Some res
         | None \<Rightarrow> rmatch r (x # xs) cap)
      else rmatch r (x # xs) cap)"

text \<open>
  \<open>FindStringSubmatch\<close>: the leftmost start at which the pattern matches; the result
  holds the matched text and the group, and is empty (\<open>nil\<close>) when nothing matches.
\<close>

fun FindStringSubmatch :: "inst list \<Rightarrow> string \<Rightarrow> string list" where
  "FindStringSubmatch re [] =
     (case rmatch re [] [] of Some (cap, rest) \<Rightarrow> [[], cap] | None \<Rightarrow> [])"
| "FindStringSubmatch re (x # xs) =
     (case rmatch re (x # xs) [] of
        Some (cap, rest) \<Rightarrow> [take (length (x # xs) - length rest) (x # xs), cap]
      | None \<Rightarrow> FindStringSubmatch re xs)"

definition lits :: "string \<Rightarrow> inst list" where
  "lits s = map (\<lambda>c. One (Lit c)) s"

definition link_regex :: "string \<Rightarrow> inst list" where
  \<open>link_regex ty =
     Star Whitespace # lits ''<link'' @ Star AnyCharNotNL # lits ''type="'' @ lits ty
       @ Star AnyCharNotNL # lits ''href="''
       @ [CaptureStar (NotChar (CHR ''"'')), One (Lit (CHR ''"''))]\<close>

text \<open>
  \<open>\s*<link.*type="application/rss\+xml.*href="([^"]*)"\<close> and its atom twin.
\<close>

definition rss_regex :: "inst list" where
  "rss_regex = link_regex ''application/rss+xml''"

definition atom_regex :: "inst list" where
  "atom_regex = link_regex ''application/atom+xml''"

definition regexes :: "inst list list" where
  "regexes = [rss_regex, atom_regex]"

section \<open>extractFeedLink\<close>

definition HasPrefix :: "string \<Rightarrow> string \<Rightarrow> bool" where
  "HasPrefix s prefix = (take (length prefix) s = prefix)"

text \<open>
  The loop over \<open>regexes\<close>. A match whose group starts with a slash replaces the path
  of a copy of the base URL; any other group is parsed, and a parse failure moves on
  to the next pattern (\<open>continue\<close>).
\<close>

fun extractFeedLink_loop :: "env \<Rightarrow> URL \<Rightarrow> string \<Rightarrow> inst list list \<Rightarrow> URL option" where
  "extractFeedLink_loop e baseUrl contents [] = None"
| "extractFeedLink_loop e baseUrl contents (r # rs) =
     (let matches = FindStringSubmatch r contents in
      if length matches > 1 then
        (if HasPrefix (matches ! 1) ''/'' then Some (baseUrl\<lparr>Path := matches ! 1\<rparr>)
         else (case url_Parse e (matches ! 1) of
                 Inl err \<Rightarrow> extractFeedLink_loop e baseUrl contents rs
               | Inr u \<Rightarrow> Some u))
      else extractFeedLink_loop e baseUrl contents rs)"

definition extractFeedLink :: "env \<Rightarrow> URL \<Rightarrow> string \<Rightarrow> URL option" where
  "extractFeedLink e baseUrl contents = extractFeedLink_loop e baseUrl contents regexes"

section \<open>fetchFeed\<close>

text \<open>
  \<open>fetchFeed\<close> returns the feed or an error; the model returns in front of it the list
  of the URL strings requested, in order, so that the number of requests can be
  counted. The error of \<open>http.NewRequest\<close> is discarded in the source and the request
  is taken to be built.
\<close>

function fetchFeed :: "env \<Rightarrow> URL \<Rightarrow> int \<Rightarrow> string list \<times> (error + Feed)" where
  "fetchFeed e feedUrl depth =
     (case http_Do e (url_String e feedUrl) of
        Inl msg \<Rightarrow> ([url_String e feedUrl], Inl (TransportError msg))
      | Inr resp \<Rightarrow>
          if StatusCode resp < 200 \<or> StatusCode resp \<ge> 300
          then ([url_String e feedUrl], Inl (StatusError (StatusCode resp) (Status resp)))
          else
            (case Body resp of
               Inl msg \<Rightarrow> ([url_String e feedUrl], Inl (ReadBodyError msg))
             | Inr contents \<Rightarrow>
                 (case gofeed_ParseString e contents of
                    Inr feed \<Rightarrow> ([url_String e feedUrl], Inr feed)
                  | Inl err \<Rightarrow>
                      if err = ErrFeedTypeNotDetected \<and> depth = 0
                      then
                        (case extractFeedLink e feedUrl contents of
                           None \<Rightarrow> ([url_String e feedUrl], Inl NoFeedLinkInHead)
                         | Some newFeed \<Rightarrow>
                             (case fetchFeed e newFeed 1 of
                                (reqs, res) \<Rightarrow> (url_String e feedUrl # reqs, res)))
                      else ([url_String e feedUrl], Inl err))))"
  by pat_completeness auto
termination
  by (relation "measure (\<lambda>(e, feedUrl, depth). if depth = 0 then 1 else 0)") auto

declare fetchFeed.simps [simp del]

text \<open>
  Auto-discovery happens for a target when its body arrives, is not recognised as a
  feed, and holds a feed link: \<open>discovers e feedUrl newFeed\<close>.
\<close>

definition discovers :: "env \<Rightarrow> URL \<Rightarrow> URL \<Rightarrow> bool" where
  "discovers e feedUrl newFeed =
     (case http_Do e (url_String e feedUrl) of
        Inl msg \<Rightarrow> False
      | Inr resp \<Rightarrow>
          200 \<le> StatusCode resp \<and> StatusCode resp < 300 \<and>
          (case Body resp of
             Inl msg \<Rightarrow> False
           | Inr contents \<Rightarrow>
               gofeed_ParseString e contents = Inl ErrFeedTypeNotDetected \<and>
               extractFeedLink e feedUrl contents = Some newFeed))"

section \<open>parseFeed\<close>

text \<open>
  The loop of \<open>parseFeed\<close> over \<open>feed.Items\<close>, with the slice \<open>posts\<close> as accumulator.
  An item without a published and without an updated time is skipped (\<open>continue\<close>).
\<close>

fun parseFeed_loop :: "string \<Rightarrow> string \<Rightarrow> Item list \<Rightarrow> Post list \<Rightarrow> Post list" where
  "parseFeed_loop link ftitle [] posts = posts"
| "parseFeed_loop link ftitle (i # rest) posts =
     (case PublishedParsed i of
        Some t \<Rightarrow>
          parseFeed_loop link ftitle rest
            (posts @ [\<lparr>Title = Item_Title i, Link = Item_Link i, Timestamp = t,
                       FeedLink = link, FeedTitle = ftitle\<rparr>])
      | None \<Rightarrow>
          (case UpdatedParsed i of
             Some t \<Rightarrow>
               parseFeed_loop link ftitle rest
                 (posts @ [\<lparr>Title = Item_Title i, Link = Item_Link i, Timestamp = t,
                            FeedLink = link, FeedTitle = ftitle\<rparr>])
           | None \<Rightarrow> parseFeed_loop link ftitle rest posts))"

text \<open>\<open>parseFeed\<close> returns the posts and an error, which is \<open>nil\<close> on its only return.\<close>

definition parseFeed :: "env \<Rightarrow> URL \<Rightarrow> Feed \<Rightarrow> Post list \<times> error option" where
  "parseFeed e feedUrl feed =
     (parseFeed_loop (url_String e feedUrl) (Feed_Title feed) (Items feed) [], None)"

text \<open>
  The timestamp rule in the specification's words: the published time when present,
  otherwise the updated time when present, otherwise none.
\<close>

definition resolved_time :: "Item \<Rightarrow> Time option" where
  "resolved_time i =
     (if PublishedParsed i \<noteq> None then PublishedParsed i
      else if UpdatedParsed i \<noteq> None then UpdatedParsed i
      else None)"

definition posts_of_item :: "string \<Rightarrow> string \<Rightarrow> Item \<Rightarrow> Post list" where
  "posts_of_item link ftitle i =
     (case resolved_time i of
        None \<Rightarrow> []
      | Some t \<Rightarrow> [\<lparr>Title = Item_Title i, Link = Item_Link i, Timestamp = t,
                    FeedLink = link, FeedTitle = ftitle\<rparr>])"

section \<open>fetchAll\<close>

text \<open>
  What one worker goroutine sends into \<open>postChan\<close> for its target: nothing when
  \<open>fetchFeed\<close> fails, otherwise the posts of \<open>parseFeed\<close>, which is called with the
  target itself (the loop variable \<open>feed\<close>), whatever URL the feed came from.
\<close>

definition worker_posts :: "env \<Rightarrow> URL \<Rightarrow> Post list" where
  "worker_posts e feed =
     (case snd (fetchFeed e feed 0) of
        Inl err \<Rightarrow> []
      | Inr feedData \<Rightarrow> (case parseFeed e feed feedData of (posts, err) \<Rightarrow> posts))"

text \<open>
  \<open>postChan\<close> is buffered with room for 10000 posts and is read only after
  \<open>wg.Wait()\<close> has returned. Each worker sends its posts in order, so what the channel
  holds at the end is an interleaving of the workers' lists.
\<close>

definition postChan_capacity :: nat where
  "postChan_capacity = 10000"

fun merges :: "'a list list \<Rightarrow> 'a list set" where
  "merges [] = {[]}"
| "merges (xs # xss) = (\<Union>ys \<in> merges xss. shuffles xs ys)"

definition chan_order_ok :: "env \<Rightarrow> URL list \<Rightarrow> bool" where
  "chan_order_ok e feeds =
     (chan_order e (map (worker_posts e) feeds) \<in> merges (map (worker_posts e) feeds))"

text \<open>
  \<open>fetchAll\<close>. When the workers have more posts to send than the channel holds, the
  sends beyond the capacity block, \<open>wg.Wait()\<close> never returns and neither does
  \<open>fetchAll\<close>: the result is \<open>None\<close>. This does not depend on the schedule, since
  nothing is received before all workers are done.
\<close>

definition fetchAll :: "env \<Rightarrow> URL list \<Rightarrow> Post list option" where
  "fetchAll e feeds =
     (let sent = map (worker_posts e) feeds in
      if length (concat sent) > postChan_capacity then None
      else Some (chan_order e sent))"

section \<open>groupByDate\<close>

text \<open>\<open>ByTimestamp.Less\<close>, on the two posts at the indices it is given.\<close>

definition ByTimestamp_Less :: "Post \<Rightarrow> Post \<Rightarrow> bool" where
  "ByTimestamp_Less a b = After (Timestamp a) (Timestamp b)"

text \<open>
  What \<open>sort.Sort\<close> promises of its result: the same posts, and no post ordered by
  \<open>Less\<close> before one that precedes it. The order of posts that \<open>Less\<close> does not
  separate is not promised.
\<close>

definition Sort_ok :: "env \<Rightarrow> Post list \<Rightarrow> bool" where
  "Sort_ok e posts =
     (mset (sort_Sort e posts) = mset posts
      \<and> sorted_wrt (\<lambda>a b. \<not> ByTimestamp_Less b a) (sort_Sort e posts))"

text \<open>
  The loop of \<open>groupByDate\<close>, started with \<open>grouped = [[]]\<close> ("Initialize with 1
  list") and \<open>lastDate = ""\<close>. The argument \<open>format\<close> stands for
  \<open>p.Timestamp.Format(dateFormat)\<close>. \<open>grouped\<close> is never empty, so the index
  \<open>len(grouped) - 1\<close> is in range.
\<close>

fun groupByDate_loop ::
  "(Time \<Rightarrow> string) \<Rightarrow> Post list \<Rightarrow> Post list list \<Rightarrow> string \<Rightarrow> Post list list" where
  "groupByDate_loop format [] grouped lastDate = grouped"
| "groupByDate_loop format (p # ps) grouped lastDate =
     (let date = format (Timestamp p);
          grouped1 = (if date \<noteq> lastDate then grouped @ [[]] else grouped);
          current = length grouped1 - 1
      in groupByDate_loop format ps
           (grouped1[current := grouped1 ! current @ [p]]) date)"

definition groupByDate :: "env \<Rightarrow> (Time \<Rightarrow> string) \<Rightarrow> Post list \<Rightarrow> Post list list" where
  "groupByDate e format posts = groupByDate_loop format (sort_Sort e posts) [[]] []"

text \<open>
  The bucketing in the specification's words: walking the sequence, a new bucket
  starts whenever the label of a post differs from the label of the post before it.
  \<open>label_runs\<close> cuts a list into these runs of equal labels.
\<close>

fun add_to_runs :: "(Time \<Rightarrow> string) \<Rightarrow> Post \<Rightarrow> Post list list \<Rightarrow> Post list list" where
  "add_to_runs format p [] = [[p]]"
| "add_to_runs format p ([] # bs) = [p] # bs"
| "add_to_runs format p ((q # b) # bs) =
     (if format (Timestamp p) = format (Timestamp q) then (p # q # b) # bs
      else [p] # (q # b) # bs)"

definition label_runs :: "(Time \<Rightarrow> string) \<Rightarrow> Post list \<Rightarrow> Post list list" where
  "label_runs format ps = foldr (add_to_runs format) ps []"

subsection \<open>The layout "Jan 2006"\<close>

text \<open>
  Every caller passes the layout \<open>"Jan 2006"\<close>: the abbreviated month and the year of
  the timestamp, read in UTC. The date is computed as Go's \<open>time\<close> package does, from
  the number of days since 0001-01-01 by cutting off cycles of 400, 100, 4 and 1
  years.
\<close>

definition days_since_year1 :: "Time \<Rightarrow> int" where
  "days_since_year1 t = t div 86400000000000 + 719162"

definition Year_and_yday :: "int \<Rightarrow> int \<times> int" where
  "Year_and_yday d0 =
     (let n400 = d0 div 146097;
          d1 = d0 mod 146097;
          n100 = d1 div 36524 - d1 div 36524 div 4;
          d2 = d1 - 36524 * n100;
          n4 = d2 div 1461;
          d3 = d2 - 1461 * n4;
          n1 = d3 div 365 - d3 div 365 div 4;
          yday = d3 - 365 * n1
      in (400 * n400 + 100 * n100 + 4 * n4 + n1 + 1, yday))"

definition isLeap :: "int \<Rightarrow> bool" where
  "isLeap year = (year mod 4 = 0 \<and> (year mod 100 \<noteq> 0 \<or> year mod 400 = 0))"

definition daysBefore :: "int list" where
  "daysBefore = [0, 31, 59, 90, 120, 151, 181, 212, 243, 273, 304, 334, 365]"

text \<open>The month, 1 to 12, of day \<open>yday\<close> (counted from 0) of a year.\<close>

definition Month_of :: "int \<Rightarrow> int \<Rightarrow> int" where
  "Month_of year yday =
     (if isLeap year \<and> yday = 59 then 2
      else
        (let day = (if isLeap year \<and> yday > 59 then yday - 1 else yday);
             month = day div 31
         in if day \<ge> daysBefore ! nat (month + 1) then month + 2 else month + 1))"

definition Year :: "Time \<Rightarrow> int" where
  "Year t = fst (Year_and_yday (days_since_year1 t))"

definition Month :: "Time \<Rightarrow> int" where
  "Month t = Month_of (Year t) (snd (Year_and_yday (days_since_year1 t)))"

definition shortMonthNames :: "string list" where
  "shortMonthNames = [''Jan'', ''Feb'', ''Mar'', ''Apr'', ''May'', ''Jun'',
                      ''Jul'', ''Aug'', ''Sep'', ''Oct'', ''Nov'', ''Dec'']"

fun decimal :: "nat \<Rightarrow> string" where
  "decimal n =
     (if n < 10 then [''0123456789'' ! n]
      else decimal (n div 10) @ [''0123456789'' ! (n mod 10)])"

declare decimal.simps [simp del]

text \<open>\<open>appendInt\<close>: the decimal form, with a sign in front and zeros up to the width.\<close>

definition appendInt :: "int \<Rightarrow> nat \<Rightarrow> string" where
  "appendInt x width =
     (if x < 0 then ''-'' else [])
     @ replicate (width - length (decimal (nat \<bar>x\<bar>))) (CHR ''0'')
     @ decimal (nat \<bar>x\<bar>)"

definition Format_Jan_2006 :: "Time \<Rightarrow> string" where
  "Format_Jan_2006 t = shortMonthNames ! nat (Month t - 1) @ '' '' @ appendInt (Year t) 4"




section \<open>parseFeedArg\<close>

text \<open>\<open>strings.Split (s, "\n")\<close>.\<close>

fun Split_newline :: "string \<Rightarrow> string list" where
  "Split_newline [] = [[]]"
| "Split_newline (c # cs) =
     (if c = CHR 0x0A then [] # Split_newline cs
      else (case Split_newline cs of
              l # ls \<Rightarrow> (c # l) # ls
            | [] \<Rightarrow> [[c]]))"

fun parseFeedArg_loop :: "env \<Rightarrow> string list \<Rightarrow> URL list \<Rightarrow> error + URL list" where
  "parseFeedArg_loop e [] urls = Inr urls"
| "parseFeedArg_loop e (l # ls) urls =
     (if l = [] then parseFeedArg_loop e ls urls
      else (case url_Parse e l of
              Inl err \<Rightarrow> Inl (UrlParseError l err)
            | Inr u \<Rightarrow> parseFeedArg_loop e ls (urls @ [u])))"

definition parseFeedArg_url :: "env \<Rightarrow> string \<Rightarrow> error + URL list" where
  "parseFeedArg_url e feed =
     (case url_Parse e feed of
        Inl err \<Rightarrow> Inl (NotFileUrlParseError feed err)
      | Inr u \<Rightarrow> Inr [u])"

definition parseFeedArg_file :: "env \<Rightarrow> string \<Rightarrow> error + URL list" where
  "parseFeedArg_file e feed =
     (case ioutil_ReadFile e feed of
        Inl err \<Rightarrow> Inl (ReadFileError feed err)
      | Inr contents \<Rightarrow> parseFeedArg_loop e (Split_newline contents) [])"

text \<open>
  The argument is taken as a URL when \<open>os.Stat\<close> says it does not exist or names
  something that is not a regular file, and read as a file otherwise.
\<close>

definition parseFeedArg :: "env \<Rightarrow> string \<Rightarrow> error + URL list" where
  "parseFeedArg e feed =
     (case os_Stat e feed of
        NotExist \<Rightarrow> parseFeedArg_url e feed
      | FileInfo regular \<Rightarrow>
          if \<not> regular then parseFeedArg_url e feed else parseFeedArg_file e feed
      | StatFailed msg \<Rightarrow> parseFeedArg_file e feed)"

text \<open>
  The resolution of a file in the specification's words: the lines that are not
  empty, each parsed as a URL, in file order, failing at the first line that does not
  parse with an error that names the line.
\<close>

fun parse_lines :: "env \<Rightarrow> string list \<Rightarrow> error + URL list" where
  "parse_lines e [] = Inr []"
| "parse_lines e (l # ls) =
     (case url_Parse e l of
        Inl err \<Rightarrow> Inl (UrlParseError l err)
      | Inr u \<Rightarrow> (case parse_lines e ls of Inl er \<Rightarrow> Inl er | Inr us \<Rightarrow> Inr (u # us)))"

text \<open>The text of a file with the given lines, separated by newlines.\<close>

fun join_lines :: "string list \<Rightarrow> string" where
  "join_lines [] = []"
| "join_lines [l] = l"
| "join_lines (l # ls) = l @ CHR 0x0A # join_lines ls"

section \<open>main\<close>

datatype render_mode = Text | Html | Web

text \<open>
  How a run ends: the usage error for no argument (exit 1), the version line, an
  argument that does not resolve (exit 1), a temporary file that cannot be made
  (exit 1), a fetch phase that never finishes, or the grouped posts handed to the
  renderer of the chosen mode, after which \<open>main\<close> returns.
\<close>

datatype outcome =
    Exit_NoFeed
  | Printed_Version
  | Exit_CouldNotParse string error
  | Exit_TempFile
  | Blocked
  | Rendered render_mode "Post list list"

fun exit_status :: "outcome \<Rightarrow> int option" where
  "exit_status Exit_NoFeed = Some 1"
| "exit_status Printed_Version = Some 0"
| "exit_status (Exit_CouldNotParse f err) = Some 1"
| "exit_status Exit_TempFile = Some 1"
| "exit_status Blocked = None"
| "exit_status (Rendered m g) = Some 0"

text \<open>The loop of \<open>main\<close> over the arguments, appending what each resolves to.\<close>

fun main_resolve :: "env \<Rightarrow> string list \<Rightarrow> URL list \<Rightarrow> (string \<times> error) + URL list" where
  "main_resolve e [] feeds = Inr feeds"
| "main_resolve e (f # fs) feeds =
     (case parseFeedArg e f of
        Inl err \<Rightarrow> Inl (f, err)
      | Inr newFeeds \<Rightarrow> main_resolve e fs (feeds @ newFeeds))"

definition main :: "env \<Rightarrow> string list \<Rightarrow> bool \<Rightarrow> bool \<Rightarrow> outcome" where
  "main e feedsList web html =
     (if length feedsList = 0 then Exit_NoFeed
      else if feedsList ! 0 = ''version'' then Printed_Version
      else
        (case main_resolve e feedsList [] of
           Inl (f, err) \<Rightarrow> Exit_CouldNotParse f err
         | Inr feeds \<Rightarrow>
             (case fetchAll e feeds of
                None \<Rightarrow> Blocked
              | Some posts \<Rightarrow>
                  if web then
                    (if ioutil_TempFile e
                     then Rendered Web (groupByDate e Format_Jan_2006 posts)
                     else Exit_TempFile)
                  else if html then Rendered Html (groupByDate e Format_Jan_2006 posts)
                  else Rendered Text (groupByDate e Format_Jan_2006 posts))))"

section \<open>A closed world for concrete runs\<close>

text \<open>
  One sort that keeps the promise of \<open>sort.Sort\<close>, the insertion sort of Go's \<open>sort\<close>
  package: each post in turn moves left while \<open>Less\<close> puts it before its left
  neighbour. \<open>sink\<close> works on the sorted prefix in reverse, nearest neighbour first.
\<close>

fun sink :: "Post \<Rightarrow> Post list \<Rightarrow> Post list" where
  "sink x [] = [x]"
| "sink x (y # ys) = (if ByTimestamp_Less x y then y # sink x ys else x # y # ys)"

definition insertionSort :: "Post list \<Rightarrow> Post list" where
  "insertionSort posts = rev (foldl (\<lambda>sorted x. sink x sorted) [] posts)"

text \<open>
  A small world: a page at \<open>http://a.example/\<close> that links to its feed, the feed at
  \<open>http://a.example/feed.xml\<close> with one item of 2023-05-01T00:00:00Z, no other
  host reachable, and the two files \<open>feeds.txt\<close> and \<open>empty.txt\<close>. Its \<open>url.Parse\<close>
  and \<open>String\<close> treat the plain \<open>http://host/path\<close> form only, on which they agree
  with Go's; whatever does not start with \<open>http://\<close> is refused, as Go's \<open>url.Parse\<close>
  refuses \<open>%zz\<close>, the one such string parsed below.
\<close>

definition page_url :: URL where
  "page_url = \<lparr>Scheme = ''http'', Opaque = [], User = None, Host = ''a.example'',
     Path = ''/'', RawPath = [], ForceQuery = False, RawQuery = [], Fragment = []\<rparr>"

definition down_url :: URL where
  "down_url = page_url\<lparr>Host := ''down.example'', Path := ''/feed''\<rparr>"

definition page_html :: string where
  \<open>page_html =
     ''<html><head><link rel="alternate" type="application/rss+xml" href="/feed.xml"></head></html>''\<close>


definition feed_xml :: string where
  \<open>feed_xml =
     ''<rss version="2.0"><channel><title>A</title><item><title>T</title><link>http://a.example/1</link><pubDate>Mon, 01 May 2023 00:00:00 GMT</pubDate></item></channel></rss>''\<close>

definition feed_item :: Item where
  "feed_item = \<lparr>Item_Title = ''T'', Item_Link = ''http://a.example/1'',
     PublishedParsed = Some 1682899200000000000, UpdatedParsed = None\<rparr>"

definition world_Parse :: "string \<Rightarrow> string + URL" where
  "world_Parse s =
     (if HasPrefix s ''http://''
      then Inr \<lparr>Scheme = ''http'', Opaque = [], User = None,
                Host = takeWhile (\<lambda>c. c \<noteq> CHR ''/'') (drop 7 s),
                Path = dropWhile (\<lambda>c. c \<noteq> CHR ''/'') (drop 7 s),
                RawPath = [], ForceQuery = False, RawQuery = [], Fragment = []\<rparr>
      else Inl ''invalid URL'')"

definition world_String :: "URL \<Rightarrow> string" where
  "world_String u = Scheme u @ ''://'' @ Host u @ Path u"

definition world_Do :: "string \<Rightarrow> string + Response" where
  "world_Do s =
     (if s = ''http://a.example/''
      then Inr \<lparr>StatusCode = 200, Status = ''200 OK'', Body = Inr page_html\<rparr>
      else if s = ''http://a.example/feed.xml''
      then Inr \<lparr>StatusCode = 200, Status = ''200 OK'', Body = Inr feed_xml\<rparr>
      else Inl ''no such host'')"

definition world_ParseString :: "string \<Rightarrow> error + Feed" where
  "world_ParseString s =
     (if s = feed_xml then Inr \<lparr>Feed_Title = ''A'', Items = [feed_item]\<rparr>
      else Inl ErrFeedTypeNotDetected)"

definition world_Stat :: "string \<Rightarrow> stat_result" where
  "world_Stat s =
     (if s = ''feeds.txt'' \<or> s = ''empty.txt'' then FileInfo True else NotExist)"

definition world_ReadFile :: "string \<Rightarrow> string + string" where
  "world_ReadFile s =
     (if s = ''feeds.txt''
      then Inr (''http://a.example/'' @ CHR 0x0A # ''http://a.example/feed.xml'' @ [CHR 0x0A])
      else if s = ''empty.txt'' then Inr []
      else Inl ''no such file or directory'')"

definition world :: env where
  "world = \<lparr>url_Parse = world_Parse, url_String = world_String, http_Do = world_Do,
     gofeed_ParseString = world_ParseString, os_Stat = world_Stat,
     ioutil_ReadFile = world_ReadFile, ioutil_TempFile = True,
     sort_Sort = insertionSort, chan_order = concat\<rparr>"

text \<open>
  Three posts: two of 2023-05-01T00:00:00Z with different links, one of
  2023-04-01T00:00:00Z.
\<close>

definition post_a :: Post where
  "post_a = \<lparr>Title = ''T'', Link = ''http://a.example/1'', Timestamp = 1682899200000000000,
     FeedLink = ''http://a.example/'', FeedTitle = ''A''\<rparr>"


definition post_c :: Post where
  "post_c = post_a\<lparr>Link := ''http://a.example/3'', Timestamp := 1680307200000000000\<rparr>"

text \<open>
  The same world with one more host, whose feed has 10001 items.
\<close>

definition big_url :: URL where
  "big_url = page_url\<lparr>Host := ''big.example'', Path := ''/feed''\<rparr>"

definition big_items_xml :: string where
  \<open>big_items_xml =
     concat (replicate 10001
       ''<item><title>T</title><link>http://a.example/1</link><pubDate>Mon, 01 May 2023 00:00:00 GMT</pubDate></item>'')
     @ ''</channel></rss>''\<close>

definition big_xml :: string where
  \<open>big_xml = ''<rss version="2.0"><channel><title>B</title>'' @ big_items_xml\<close>

definition big_items :: "Item list" where
  "big_items = replicate 10001 feed_item"

definition big_world :: env where
  "big_world = world
     \<lparr>http_Do := (\<lambda>s. if s = ''http://big.example/feed''
                      then Inr \<lparr>StatusCode = 200, Status = ''200 OK'', Body = Inr big_xml\<rparr>
                      else world_Do s),
      gofeed_ParseString := (\<lambda>s. if s = big_xml
                      then Inr \<lparr>Feed_Title = ''B'', Items = big_items\<rparr>
                      else world_ParseString s)\<rparr>"

section \<open>Proofs\<close>

subsection \<open>parseFeed\<close>

lemma parseFeed_loop_concat:
  "parseFeed_loop link ftitle items posts =
     posts @ concat (map (posts_of_item link ftitle) items)"
  by (induction items arbitrary: posts)
     (auto simp: posts_of_item_def resolved_time_def split: option.splits)

text \<open>
  C5. Whatever the feed, \<open>parseFeed\<close> returns no error and the posts of its items in
  item order, where an item contributes the one Post stamped with its published time
  when that is present, otherwise with its updated time when that is present, and no
  Post at all when both are absent. The last three equations run the code on a feed
  of one item for each of the three cases.
\<close>

theorem parseFeed_timestamp_resolution:
  "parseFeed e feedUrl feed =
     (concat (map (posts_of_item (url_String e feedUrl) (Feed_Title feed)) (Items feed)), None)
   \<and> parseFeed e feedUrl (feed\<lparr>Items := [i\<lparr>PublishedParsed := Some t\<rparr>]\<rparr>) =
       ([\<lparr>Title = Item_Title i, Link = Item_Link i, Timestamp = t,
          FeedLink = url_String e feedUrl, FeedTitle = Feed_Title feed\<rparr>], None)
   \<and> parseFeed e feedUrl
         (feed\<lparr>Items := [i\<lparr>PublishedParsed := None, UpdatedParsed := Some u\<rparr>]\<rparr>) =
       ([\<lparr>Title = Item_Title i, Link = Item_Link i, Timestamp = u,
          FeedLink = url_String e feedUrl, FeedTitle = Feed_Title feed\<rparr>], None)
   \<and> parseFeed e feedUrl
         (feed\<lparr>Items := [i\<lparr>PublishedParsed := None, UpdatedParsed := None\<rparr>]\<rparr>) =
       ([], None)"
  by (simp add: parseFeed_def parseFeed_loop_concat posts_of_item_def resolved_time_def)

subsection \<open>fetchFeed\<close>

lemma fetchFeed_depth1:
  "depth \<noteq> 0 \<Longrightarrow> fst (fetchFeed e feedUrl depth) = [url_String e feedUrl]"
  by (subst fetchFeed.simps) (simp split: sum.splits)

lemma fetchFeed_depth1_unrecognized:
  "depth \<noteq> 0 \<Longrightarrow> http_Do e (url_String e feedUrl) = Inr resp \<Longrightarrow>
   200 \<le> StatusCode resp \<Longrightarrow> StatusCode resp < 300 \<Longrightarrow> Body resp = Inr contents \<Longrightarrow>
   gofeed_ParseString e contents = Inl ErrFeedTypeNotDetected \<Longrightarrow>
   snd (fetchFeed e feedUrl depth) = Inl ErrFeedTypeNotDetected"
  by (subst fetchFeed.simps) (simp split: sum.splits)

lemma fetchFeed_discovers:
  "discovers e feedUrl newFeed \<Longrightarrow>
   fetchFeed e feedUrl 0 =
     ([url_String e feedUrl, url_String e newFeed], snd (fetchFeed e newFeed 1))"
  using fetchFeed_depth1 [of 1 e newFeed]
  by (subst fetchFeed.simps) (auto simp: discovers_def split: sum.splits prod.splits)

lemma fetchFeed_no_discovery:
  "\<forall>newFeed. \<not> discovers e feedUrl newFeed \<Longrightarrow>
   fst (fetchFeed e feedUrl 0) = [url_String e feedUrl]"
  by (subst fetchFeed.simps) (auto simp: discovers_def split: sum.splits option.splits)

lemma fetchFeed_depth0_cases:
  "fst (fetchFeed e feedUrl 0) = [url_String e feedUrl] \<or>
   (\<exists>newFeed. discovers e feedUrl newFeed \<and>
      fetchFeed e feedUrl 0 =
        ([url_String e feedUrl, url_String e newFeed], snd (fetchFeed e newFeed 1)))"
  using fetchFeed_discovers fetchFeed_no_discovery by blast

lemma fetchFeed_requests_le2: "length (fst (fetchFeed e feedUrl depth)) \<le> 2"
proof (cases "depth = 0")
  case True
  then show ?thesis using fetchFeed_depth0_cases [of e feedUrl] by auto
next
  case False
  then show ?thesis by (simp add: fetchFeed_depth1)
qed

text \<open>
  C6. A fetch sends at most two requests. At any depth but 0 it sends exactly one, the
  one for its own URL, and a body that is not a recognised feed type makes it fail
  with \<open>ErrFeedTypeNotDetected\<close>, with no look for a link and no further request. At
  depth 0 it sends either that one request or, when a link is discovered, one more:
  the depth-1 fetch of the discovered URL, whose result it returns.
\<close>

theorem fetchFeed_discovery_depth_bounded:
  "length (fst (fetchFeed e feedUrl depth)) \<le> 2
   \<and> (depth \<noteq> 0 \<longrightarrow> fst (fetchFeed e feedUrl depth) = [url_String e feedUrl])
   \<and> (depth \<noteq> 0 \<and> http_Do e (url_String e feedUrl) = Inr resp
        \<and> 200 \<le> StatusCode resp \<and> StatusCode resp < 300 \<and> Body resp = Inr contents
        \<and> gofeed_ParseString e contents = Inl ErrFeedTypeNotDetected
      \<longrightarrow> snd (fetchFeed e feedUrl depth) = Inl ErrFeedTypeNotDetected)
   \<and> (fst (fetchFeed e feedUrl 0) = [url_String e feedUrl]
      \<or> (\<exists>newFeed. discovers e feedUrl newFeed \<and>
            fetchFeed e feedUrl 0 =
              ([url_String e feedUrl, url_String e newFeed], snd (fetchFeed e newFeed 1))))"
  using fetchFeed_requests_le2 fetchFeed_depth1 fetchFeed_depth1_unrecognized
    fetchFeed_depth0_cases
  by blast

theorem fetchFeed_discovery_depth_bounded_witness:
  "(1::int) \<noteq> 0
   \<and> http_Do world (url_String world page_url) =
       Inr \<lparr>StatusCode = 200, Status = ''200 OK'', Body = Inr page_html\<rparr>
   \<and> gofeed_ParseString world page_html = Inl ErrFeedTypeNotDetected
   \<and> fetchFeed world page_url 1 = ([''http://a.example/''], Inl ErrFeedTypeNotDetected)
   \<and> length (fst (fetchFeed world page_url 0)) \<le> 2"
proof -
  have h2: "http_Do world (url_String world page_url) =
       Inr \<lparr>StatusCode = 200, Status = ''200 OK'', Body = Inr page_html\<rparr>"
    by (simp add: world_def world_String_def page_url_def world_Do_def)
  have h3: "gofeed_ParseString world page_html = Inl ErrFeedTypeNotDetected"
    by (simp add: world_def world_ParseString_def page_html_def feed_xml_def)
  have s: "url_String world page_url = ''http://a.example/''"
    by (simp add: world_def world_String_def page_url_def)
  from fetchFeed_discovery_depth_bounded
         [of world page_url 1 "\<lparr>StatusCode = 200, Status = ''200 OK'', Body = Inr page_html\<rparr>"
             page_html]
       fetchFeed_discovery_depth_bounded [of world page_url 0]
       h2 h3 s
  show ?thesis by (simp add: prod_eq_iff)
qed

subsection \<open>extractFeedLink\<close>






subsection \<open>fetchAll\<close>

lemma worker_posts_FeedLink:
  "p \<in> set (worker_posts e feed) \<Longrightarrow> FeedLink p = url_String e feed"
  by (auto simp: worker_posts_def parseFeed_def parseFeed_loop_concat posts_of_item_def
           split: sum.splits option.splits)

lemma worker_posts_failed:
  "snd (fetchFeed e feed 0) = Inl err \<Longrightarrow> worker_posts e feed = []"
  by (simp add: worker_posts_def)

lemma mset_merges: "r \<in> merges xss \<Longrightarrow> mset r = mset (concat xss)"
  by (induction xss arbitrary: r) (auto simp: mset_shuffles)

lemma set_merges: "r \<in> merges xss \<Longrightarrow> set r = set (concat xss)"
  using mset_merges set_mset_mset by metis

lemma concat_in_merges: "concat xss \<in> merges xss"
proof (induction xss)
  case Nil
  then show ?case by simp
next
  case (Cons xs xss)
  have "xs @ ys \<in> shuffles xs ys" for ys :: "'a list"
    by (induction xs) (auto intro: Cons_in_shuffles_leftI simp: )
  with Cons show ?case by auto
qed

text \<open>The arrival order of the closed world, worker after worker, is an interleaving.\<close>

lemma chan_order_ok_world: "chan_order_ok world feeds"
  by (simp add: chan_order_ok_def world_def concat_in_merges)

text \<open>
  C1, as amended. Every Post that \<open>fetchAll\<close> returns was sent by the worker of one of
  the targets, and its FeedLink is the string of that target, the URL handed to
  \<open>fetchAll\<close>, whether or not the feed was fetched from a discovered URL.
\<close>

theorem fetchAll_FeedLink_is_target:
  assumes "chan_order_ok e feeds" and "fetchAll e feeds = Some posts" and "p \<in> set posts"
  shows "\<exists>feed \<in> set feeds. p \<in> set (worker_posts e feed) \<and> FeedLink p = url_String e feed"
proof -
  from assms(2) have "posts = chan_order e (map (worker_posts e) feeds)"
    by (simp add: fetchAll_def Let_def split: if_splits)
  with assms(1) have "set posts = set (concat (map (worker_posts e) feeds))"
    by (simp add: chan_order_ok_def set_merges)
  with assms(3) obtain feed where "feed \<in> set feeds" "p \<in> set (worker_posts e feed)"
    by auto
  then show ?thesis using worker_posts_FeedLink by blast
qed

lemma world_page_posts:
  "worker_posts world page_url =
     [\<lparr>Title = ''T'', Link = ''http://a.example/1'', Timestamp = 1682899200000000000,
       FeedLink = ''http://a.example/'', FeedTitle = ''A''\<rparr>]"
  by code_simp

theorem fetchAll_FeedLink_is_target_witness:
  "chan_order_ok world [page_url]
   \<and> fetchAll world [page_url] =
       Some [\<lparr>Title = ''T'', Link = ''http://a.example/1'', Timestamp = 1682899200000000000,
              FeedLink = ''http://a.example/'', FeedTitle = ''A''\<rparr>]
   \<and> (\<exists>feed \<in> set [page_url].
         FeedLink \<lparr>Title = ''T'', Link = ''http://a.example/1'',
                   Timestamp = 1682899200000000000,
                   FeedLink = ''http://a.example/'', FeedTitle = ''A''\<rparr> = url_String world feed)"
proof -
  have ok: "chan_order_ok world [page_url]"
    by (simp add: chan_order_ok_def world_page_posts) (simp add: world_def)
  have all: "fetchAll world [page_url] =
       Some [\<lparr>Title = ''T'', Link = ''http://a.example/1'', Timestamp = 1682899200000000000,
              FeedLink = ''http://a.example/'', FeedTitle = ''A''\<rparr>]"
    by (simp add: fetchAll_def world_page_posts postChan_capacity_def) (simp add: world_def)
  from fetchAll_FeedLink_is_target [OF ok all, of "\<lparr>Title = ''T'', Link = ''http://a.example/1'', Timestamp = 1682899200000000000,
              FeedLink = ''http://a.example/'', FeedTitle = ''A''\<rparr>"] ok all
  show ?thesis by auto
qed

text \<open>
  C1 as stated fails where discovery occurs: the page at \<open>http://a.example/\<close> is not
  a feed and links to \<open>/feed.xml\<close>; the feed is fetched from
  \<open>http://a.example/feed.xml\<close>, and the Post carries \<open>http://a.example/\<close>.
\<close>

theorem fetchAll_FeedLink_not_discovered_url:
  "fetchFeed world page_url 0 =
     ([''http://a.example/'', ''http://a.example/feed.xml''],
      Inr \<lparr>Feed_Title = ''A'', Items = [feed_item]\<rparr>)
   \<and> map FeedLink (worker_posts world page_url) = [''http://a.example/'']
   \<and> map_option (map FeedLink) (fetchAll world [page_url]) = Some [''http://a.example/'']"
  by code_simp

text \<open>
  As long as the workers send no more posts than the channel holds, \<open>fetchAll\<close>
  returns, in some order, exactly the posts of all workers, and a target whose fetch
  failed has sent none.
\<close>

lemma fetchAll_union_of_successes:
  assumes "chan_order_ok e feeds"
    and "length (concat (map (worker_posts e) feeds)) \<le> postChan_capacity"
  shows "\<exists>posts. fetchAll e feeds = Some posts
           \<and> mset posts = (\<Sum>feed\<leftarrow>feeds. mset (worker_posts e feed))
           \<and> (\<forall>feed err. snd (fetchFeed e feed 0) = Inl err \<longrightarrow> worker_posts e feed = [])"
proof -
  have "mset (concat (map (worker_posts e) feeds)) = (\<Sum>feed\<leftarrow>feeds. mset (worker_posts e feed))"
    by (induction feeds) auto
  with assms show ?thesis
    by (auto simp: fetchAll_def chan_order_ok_def mset_merges worker_posts_failed)
qed

lemma big_world_big_posts: "length (worker_posts big_world big_url) = 10001"
proof -
  have d: "http_Do big_world (url_String big_world big_url) = Inr \<lparr>StatusCode = 200, Status = ''200 OK'', Body = Inr big_xml\<rparr>"
    by (simp add: big_world_def world_def world_String_def big_url_def page_url_def)
  have p: "gofeed_ParseString big_world big_xml = Inr \<lparr>Feed_Title = ''B'', Items = big_items\<rparr>"
    by (simp add: big_world_def world_def)
  have f: "snd (fetchFeed big_world big_url 0) = Inr \<lparr>Feed_Title = ''B'', Items = big_items\<rparr>"
    by (subst fetchFeed.simps) (simp add: d p)
  have "length (concat (map (posts_of_item l t) (replicate n feed_item))) = n" for l t n
    by (induction n) (simp_all add: posts_of_item_def resolved_time_def feed_item_def)
  then show ?thesis
    by (simp add: worker_posts_def f parseFeed_def parseFeed_loop_concat big_items_def)
qed

lemma big_world_down_posts: "worker_posts big_world down_url = []"
proof -
  have d: "http_Do big_world (url_String big_world down_url) = Inl ''no such host''"
    by (simp add: big_world_def world_def world_String_def down_url_def page_url_def world_Do_def)
  have f: "snd (fetchFeed big_world down_url 0) = Inl (TransportError ''no such host'')"
    by (subst fetchFeed.simps) (simp add: d)
  then show ?thesis by (simp add: worker_posts_def)
qed

text \<open>
  C2 fails on the code beyond the capacity of \<open>postChan\<close>. Of two targets, one is
  unreachable and sends nothing, the other has a feed of 10001 items: its worker
  blocks on the last send, and \<open>fetchAll\<close> does not return the 10001 posts, nor
  anything else.
\<close>

theorem fetchAll_blocks_beyond_capacity:
  "snd (fetchFeed big_world down_url 0) = Inl (TransportError ''no such host'')
   \<and> worker_posts big_world down_url = []
   \<and> length (worker_posts big_world big_url) = 10001
   \<and> fetchAll big_world [down_url, big_url] = None"
proof -
  have d: "http_Do big_world (url_String big_world down_url) = Inl ''no such host''"
    by (simp add: big_world_def world_def world_String_def down_url_def page_url_def world_Do_def)
  have f: "snd (fetchFeed big_world down_url 0) = Inl (TransportError ''no such host'')"
    by (subst fetchFeed.simps) (simp add: d)
  show ?thesis
    by (simp add: f fetchAll_def big_world_big_posts big_world_down_posts postChan_capacity_def)
qed


subsection \<open>groupByDate\<close>

lemma label_runs_Nil [simp]: "label_runs f [] = []"
  by (simp add: label_runs_def)

lemma label_runs_Cons: "label_runs f (p # ps) = add_to_runs f p (label_runs f ps)"
  by (simp add: label_runs_def)

lemma label_runs_nonempty: "[] \<notin> set (label_runs f ps)"
proof (induction ps)
  case Nil
  then show ?case by simp
next
  case (Cons p ps)
  then show ?case
    by (cases "(f, p, label_runs f ps)" rule: add_to_runs.cases) (auto simp: label_runs_Cons)
qed

lemma label_runs_Cons_shape:
  "\<exists>r rs. label_runs f (p # ps) = (p # r) # rs"
  using label_runs_nonempty [of f ps]
  by (cases "(f, p, label_runs f ps)" rule: add_to_runs.cases) (auto simp: label_runs_Cons)

lemma concat_label_runs: "concat (label_runs f ps) = ps"
proof (induction ps)
  case Nil
  then show ?case by simp
next
  case (Cons p ps)
  then show ?case
    by (cases "(f, p, label_runs f ps)" rule: add_to_runs.cases) (auto simp: label_runs_Cons)
qed



lemma groupByDate_loop_runs:
  "groupByDate_loop f ps (gs @ [b]) l =
     (case label_runs f ps of
        [] \<Rightarrow> gs @ [b]
      | r # rs \<Rightarrow> if f (Timestamp (hd r)) = l then gs @ [b @ r] @ rs else gs @ [b] @ r # rs)"
proof (induction ps arbitrary: gs b l)
  case Nil
  then show ?case by simp
next
  case (Cons p ps)
  obtain r rs where shape: "label_runs f (p # ps) = (p # r) # rs"
    using label_runs_Cons_shape by blast
  show ?case
  proof (cases "f (Timestamp p) = l")
    case True
    have "groupByDate_loop f (p # ps) (gs @ [b]) l = groupByDate_loop f ps (gs @ [b @ [p]]) l"
      using True by (simp add: Let_def)
    also have "\<dots> = gs @ [b @ p # r] @ rs"
      using shape True label_runs_nonempty [of f ps]
      by (subst Cons.IH, cases "(f, p, label_runs f ps)" rule: add_to_runs.cases)
         (auto simp: label_runs_Cons split: if_splits list.splits)
    finally show ?thesis using shape True by simp
  next
    case False
    have "groupByDate_loop f (p # ps) (gs @ [b]) l =
            groupByDate_loop f ps ((gs @ [b]) @ [[p]]) (f (Timestamp p))"
      using False by (simp add: Let_def nth_append list_update_append)
    also have "\<dots> = (gs @ [b]) @ (p # r) # rs"
      using shape label_runs_nonempty [of f ps]
      by (subst Cons.IH, cases "(f, p, label_runs f ps)" rule: add_to_runs.cases)
         (auto simp: label_runs_Cons split: if_splits list.splits)
    finally show ?thesis using shape False by simp
  qed
qed

lemma groupByDate_runs:
  "groupByDate e f posts =
     (case label_runs f (sort_Sort e posts) of
        [] \<Rightarrow> [[]]
      | r # rs \<Rightarrow> if f (Timestamp (hd r)) = [] then r # rs else [] # r # rs)"
  using groupByDate_loop_runs [of f "sort_Sort e posts" "[]" "[]" "[]"]
  by (simp add: groupByDate_def split: list.splits)

lemma Format_Jan_2006_nonempty: "Format_Jan_2006 t \<noteq> []"
  by (simp add: Format_Jan_2006_def)

lemma groupByDate_Jan_2006:
  "groupByDate e Format_Jan_2006 posts = [] # label_runs Format_Jan_2006 (sort_Sort e posts)"
  by (simp add: groupByDate_runs Format_Jan_2006_nonempty split: list.splits)

lemma Sort_ok_Nil: "Sort_ok e [] \<Longrightarrow> sort_Sort e [] = []"
  by (simp add: Sort_ok_def)

text \<open>
  C3, as amended. With the layout "Jan 2006", the output of \<open>groupByDate\<close> is never
  empty and is never an error: its first bucket is the empty list the loop starts
  with, and every bucket after it is non-empty. The buckets together hold the sorted
  posts, so the empty collection yields exactly the one empty bucket.
\<close>

theorem groupByDate_leading_empty_bucket:
  assumes "Sort_ok e posts"
  shows "\<exists>rest. groupByDate e Format_Jan_2006 posts = [] # rest
           \<and> [] \<notin> set rest
           \<and> concat rest = sort_Sort e posts
           \<and> (posts = [] \<longrightarrow> rest = [])"
proof -
  have "posts = [] \<longrightarrow> label_runs Format_Jan_2006 (sort_Sort e posts) = []"
    using assms by (auto simp: Sort_ok_def)
  then show ?thesis
    by (simp add: groupByDate_Jan_2006 label_runs_nonempty concat_label_runs)
qed


text \<open>The insertion sort keeps what \<open>sort.Sort\<close> promises, on every input.\<close>

lemma mset_sink: "mset (sink x ys) = add_mset x (mset ys)"
  by (induction ys) auto

lemma set_sink: "set (sink x ys) = insert x (set ys)"
  by (induction ys) auto

lemma sorted_sink:
  "sorted_wrt (\<lambda>a b. Timestamp a \<le> Timestamp b) ys \<Longrightarrow>
   sorted_wrt (\<lambda>a b. Timestamp a \<le> Timestamp b) (sink x ys)"
  by (induction ys) (auto simp: set_sink ByTimestamp_Less_def After_def)

lemma foldl_sink:
  "sorted_wrt (\<lambda>a b. Timestamp a \<le> Timestamp b) acc \<Longrightarrow>
   mset (foldl (\<lambda>sorted x. sink x sorted) acc posts) = mset acc + mset posts
   \<and> sorted_wrt (\<lambda>a b. Timestamp a \<le> Timestamp b) (foldl (\<lambda>sorted x. sink x sorted) acc posts)"
  by (induction posts arbitrary: acc) (auto simp: mset_sink sorted_sink)

lemma insertionSort_ok:
  "mset (insertionSort posts) = mset posts
   \<and> sorted_wrt (\<lambda>a b. \<not> ByTimestamp_Less b a) (insertionSort posts)"
proof -
  have "(\<lambda>a b. \<not> ByTimestamp_Less b a) = (\<lambda>a b. Timestamp b \<le> Timestamp a)"
    by (auto simp: ByTimestamp_Less_def After_def fun_eq_iff)
  then show ?thesis
    using foldl_sink [of "[]" posts]
    by (simp add: insertionSort_def sorted_wrt_rev)
qed

lemma Sort_ok_world: "Sort_ok world posts"
  using insertionSort_ok by (simp add: Sort_ok_def world_def)

theorem groupByDate_leading_empty_bucket_witness:
  "Sort_ok world [post_c, post_a]
   \<and> groupByDate world Format_Jan_2006 [post_c, post_a] = [[], [post_a], [post_c]]"
proof -
  have ok: "Sort_ok world [post_c, post_a]" by code_simp
  have "groupByDate world Format_Jan_2006 [post_c, post_a] = [[], [post_a], [post_c]]"
    by code_simp
  with groupByDate_leading_empty_bucket [OF ok] ok show ?thesis by simp
qed

text \<open>
  C3 as stated fails: the empty collection yields one bucket, not zero, and that
  bucket is empty; a collection of one post yields an empty bucket in front of the
  bucket of the post.
\<close>

theorem groupByDate_empty_input_one_bucket:
  "groupByDate world Format_Jan_2006 [] = [[]]
   \<and> groupByDate world Format_Jan_2006 [post_a] = [[], [post_a]]"
  by code_simp









subsection \<open>parseFeedArg\<close>

lemma parseFeedArg_loop_parse_lines:
  "parseFeedArg_loop e ls urls =
     (case parse_lines e (filter (\<lambda>l. l \<noteq> []) ls) of
        Inl er \<Rightarrow> Inl er
      | Inr us \<Rightarrow> Inr (urls @ us))"
  by (induction ls arbitrary: urls) (auto split: sum.splits)

lemma parse_lines_all:
  "\<forall>l \<in> set ls. url_Parse e l = Inr (u l) \<Longrightarrow> parse_lines e ls = Inr (map u ls)"
  by (induction ls) auto

lemma parse_lines_first_failure:
  "\<forall>x \<in> set pre. \<exists>v. url_Parse e x = Inr v \<Longrightarrow> url_Parse e l = Inl err \<Longrightarrow>
   parse_lines e (pre @ l # post) = Inl (UrlParseError l err)"
  by (induction pre) auto

lemma Split_newline_line:
  "CHR 0x0A \<notin> set l \<Longrightarrow> Split_newline (l @ CHR 0x0A # rest) = l # Split_newline rest"
  by (induction l) auto

lemma Split_newline_last: "CHR 0x0A \<notin> set l \<Longrightarrow> Split_newline l = [l]"
  by (induction l) auto

lemma Split_newline_join_lines:
  "\<forall>l \<in> set ls. l \<noteq> [] \<and> CHR 0x0A \<notin> set l \<Longrightarrow>
   filter (\<lambda>l. l \<noteq> []) (Split_newline (join_lines ls)) = ls
   \<and> filter (\<lambda>l. l \<noteq> []) (Split_newline (join_lines ls @ [CHR 0x0A])) = ls"
proof (induction ls rule: join_lines.induct)
  case 1
  then show ?case by simp
next
  case (2 l)
  then show ?case
    using Split_newline_line [of l "[]"] by (simp add: Split_newline_last)
next
  case (3 l l' ls)
  then show ?case
    using Split_newline_line [of l "join_lines (l' # ls)"]
      Split_newline_line [of l "join_lines (l' # ls) @ [CHR 0x0A]"]
    by simp
qed

text \<open>
  C7. For an argument that names an existing regular file whose contents can be read,
  \<open>parseFeedArg\<close> splits the contents at the newlines, drops the empty lines and
  parses the others in file order. When all of them parse, the result is the list of
  their URLs in that order; the first one that does not parse makes the result the
  error that carries that line. In particular a file of N lines that are non-empty,
  hold no newline and parse, joined by newlines with or without a final newline,
  yields exactly their N URLs in file order.
\<close>

theorem parseFeedArg_regular_file:
  assumes "os_Stat e feed = FileInfo True" and "ioutil_ReadFile e feed = Inr contents"
  shows "parseFeedArg e feed = parse_lines e (filter (\<lambda>l. l \<noteq> []) (Split_newline contents))
    \<and> ((\<forall>l \<in> set (filter (\<lambda>l. l \<noteq> []) (Split_newline contents)). url_Parse e l = Inr (u l))
        \<longrightarrow> parseFeedArg e feed = Inr (map u (filter (\<lambda>l. l \<noteq> []) (Split_newline contents))))
    \<and> (filter (\<lambda>l. l \<noteq> []) (Split_newline contents) = pre @ bad # post
          \<and> (\<forall>x \<in> set pre. \<exists>v. url_Parse e x = Inr v) \<and> url_Parse e bad = Inl err
        \<longrightarrow> parseFeedArg e feed = Inl (UrlParseError bad err))
    \<and> ((\<forall>l \<in> set ls. l \<noteq> [] \<and> CHR 0x0A \<notin> set l \<and> url_Parse e l = Inr (u l))
          \<and> (contents = join_lines ls \<or> contents = join_lines ls @ [CHR 0x0A])
        \<longrightarrow> parseFeedArg e feed = Inr (map u ls) \<and> length (map u ls) = length ls)"
proof -
  have eq: "parseFeedArg e feed = parse_lines e (filter (\<lambda>l. l \<noteq> []) (Split_newline contents))"
    using assms
    by (simp add: parseFeedArg_def parseFeedArg_file_def parseFeedArg_loop_parse_lines
             split: sum.splits)
  moreover have "parse_lines e (filter (\<lambda>l. l \<noteq> []) (Split_newline contents)) = Inr (map u ls)"
    if "\<forall>l \<in> set ls. l \<noteq> [] \<and> CHR 0x0A \<notin> set l \<and> url_Parse e l = Inr (u l)"
      and "contents = join_lines ls \<or> contents = join_lines ls @ [CHR 0x0A]"
  proof -
    from that have "filter (\<lambda>l. l \<noteq> []) (Split_newline contents) = ls"
      using Split_newline_join_lines [of ls] by auto
    with that(1) show ?thesis by (simp add: parse_lines_all)
  qed
  ultimately show ?thesis
    by (auto simp: parse_lines_all parse_lines_first_failure)
qed

theorem parseFeedArg_regular_file_witness:
  "os_Stat world ''feeds.txt'' = FileInfo True
   \<and> ioutil_ReadFile world ''feeds.txt'' =
       Inr (join_lines [''http://a.example/'', ''http://a.example/feed.xml''] @ [CHR 0x0A])
   \<and> parseFeedArg world ''feeds.txt'' = Inr [page_url, page_url\<lparr>Path := ''/feed.xml''\<rparr>]"
proof -
  let ?u = "\<lambda>l. if l = ''http://a.example/'' then page_url else page_url\<lparr>Path := ''/feed.xml''\<rparr>"
  have s: "os_Stat world ''feeds.txt'' = FileInfo True" by code_simp
  have r: "ioutil_ReadFile world ''feeds.txt'' =
       Inr (join_lines [''http://a.example/'', ''http://a.example/feed.xml''] @ [CHR 0x0A])"
    by code_simp
  have p: "\<forall>l \<in> set [''http://a.example/'', ''http://a.example/feed.xml''].
             l \<noteq> [] \<and> CHR 0x0A \<notin> set l \<and> url_Parse world l = Inr (?u l)"
    by code_simp
  from parseFeedArg_regular_file [OF s r, of ?u _ _ _ _ "[''http://a.example/'', ''http://a.example/feed.xml'']"] p s r
  show ?thesis by simp
qed

subsection \<open>main\<close>

lemma fetchAll_no_targets: "chan_order_ok e [] \<Longrightarrow> fetchAll e [] = Some []"
  by (simp add: fetchAll_def chan_order_ok_def postChan_capacity_def)

lemma groupByDate_no_posts: "Sort_ok e [] \<Longrightarrow> groupByDate e format [] = [[]]"
  by (simp add: groupByDate_def Sort_ok_def)

text \<open>
  C8, as amended. Without any argument \<open>main\<close> ends with the no-feed usage error and
  exit status 1, and an argument that does not resolve ends it with exit status 1.
  When arguments are given, the first is not \<open>version\<close>, and they resolve without
  error to an empty list of targets, \<open>main\<close> does not fail: it fetches nothing and
  hands the grouping of no posts to the renderer, and the exit status is 0 (with
  \<open>--web\<close>, provided the temporary file can be made).
\<close>

theorem main_empty_resolution:
  "main e [] web html = Exit_NoFeed
   \<and> exit_status (main e [] web html) = Some 1
   \<and> (feedsList \<noteq> [] \<and> feedsList ! 0 \<noteq> ''version'' \<and> main_resolve e feedsList [] = Inl (f, err)
      \<longrightarrow> main e feedsList web html = Exit_CouldNotParse f err
          \<and> exit_status (main e feedsList web html) = Some 1)
   \<and> (feedsList \<noteq> [] \<and> feedsList ! 0 \<noteq> ''version'' \<and> main_resolve e feedsList [] = Inr []
        \<and> chan_order_ok e [] \<and> Sort_ok e [] \<and> (web \<longrightarrow> ioutil_TempFile e)
      \<longrightarrow> main e feedsList web html =
            Rendered (if web then Web else if html then Html else Text) [[]]
          \<and> exit_status (main e feedsList web html) = Some 0)"
  by (auto simp: main_def fetchAll_no_targets groupByDate_no_posts)

theorem main_empty_resolution_witness:
  "[''empty.txt''] \<noteq> [] \<and> [''empty.txt''] ! 0 \<noteq> ''version''
   \<and> main_resolve world [''empty.txt''] [] = Inr []
   \<and> chan_order_ok world [] \<and> Sort_ok world []
   \<and> main world [''empty.txt''] False True = Rendered Html [[]]"
proof -
  have a: "[''empty.txt''] \<noteq> [] \<and> [''empty.txt''] ! 0 \<noteq> ''version''" by simp
  have b: "main_resolve world [''empty.txt''] [] = Inr []" by code_simp
  have c: "chan_order_ok world []" by (simp add: chan_order_ok_def world_def)
  have d: "Sort_ok world []" by (simp add: Sort_ok_def world_def insertionSort_def)
  from main_empty_resolution [of world False True "[''empty.txt'']"] a b c d
  show ?thesis by simp
qed

text \<open>
  C8 as stated fails for an argument that names an empty file: the resolution gives
  no target and no error, and the run ends as a success with nothing rendered.
\<close>

theorem main_empty_file_succeeds:
  "parseFeedArg world ''empty.txt'' = Inr []
   \<and> main_resolve world [''empty.txt''] [] = Inr []
   \<and> main world [''empty.txt''] False False = Rendered Text [[]]
   \<and> exit_status (main world [''empty.txt''] False False) = Some 0"
  by code_simp


subsection \<open>The calendar\<close>


























subsection \<open>Order of the output of groupByDate\<close>









end
